theory Spec2Isabelle
  imports Main "HOL-Library.Word"
begin

section \<open>Bytes, \<open>struct.pack\<close> and the output stream\<close>

text \<open>
  The generators are Python scripts. Python integers are unbounded, so they are \<open>int\<close>;
  a \<open>bytes\<close> or \<open>bytearray\<close> value is a list of 8-bit words; \<open>len\<close> is \<open>int (length _)\<close>.
  \<open>struct.pack\<close> raises \<open>struct.error\<close> when the value does not fit the format, and
  \<open>struct.pack_into\<close> also when the buffer is too short: both are the \<open>Inl\<close> branch
  of a sum.
\<close>

type_synonym byte = "8 word"

datatype error = StructError | ZeroDivisionError

text \<open>The \<open>k\<close> low-order bytes of \<open>v\<close>, least significant first (the \<open><\<close> of a format).\<close>

primrec le_bytes :: "nat \<Rightarrow> int \<Rightarrow> byte list" where
  "le_bytes 0 v = []"
| "le_bytes (Suc k) v = word_of_int (v mod 256) # le_bytes k (v div 256)"

text \<open>\<open>struct.pack('<I', v)\<close> and \<open>struct.pack('<Q', v)\<close>.\<close>

definition pack_I :: "int \<Rightarrow> error + byte list" where
  "pack_I v = (if 0 \<le> v \<and> v < 2 ^ 32 then Inr (le_bytes 4 v) else Inl StructError)"

definition pack_Q :: "int \<Rightarrow> error + byte list" where
  "pack_Q v = (if 0 \<le> v \<and> v < 2 ^ 64 then Inr (le_bytes 8 v) else Inl StructError)"

text \<open>
  \<open>struct.pack_into('<Q', buffer, offset, v)\<close> for an offset that is not negative: the
  eight bytes at \<open>offset\<close> are overwritten; the buffer keeps its length.
\<close>

definition pack_into_Q :: "byte list \<Rightarrow> nat \<Rightarrow> int \<Rightarrow> error + byte list" where
  "pack_into_Q buffer offset v =
     (if length buffer < offset + 8 then Inl StructError
      else case pack_Q v of
             Inl e \<Rightarrow> Inl e
           | Inr bs \<Rightarrow> Inr (take offset buffer @ bs @ drop (offset + 8) buffer))"

text \<open>
  The slice assignment \<open>buf[i:j] = bs\<close> of a bytearray, for \<open>0 \<le> i \<le> j\<close>: Python clamps
  both bounds to the length, as \<open>take\<close> and \<open>drop\<close> do.
\<close>

definition slice_assign :: "byte list \<Rightarrow> nat \<Rightarrow> nat \<Rightarrow> byte list \<Rightarrow> byte list" where
  "slice_assign buf i j bs = take i buf @ bs @ drop j buf"

text \<open>
  Reading a little-endian unsigned field back, and the field of \<open>k\<close> bytes at an offset
  of a byte string. These are the observations the properties are stated with.
\<close>

definition le_decode :: "byte list \<Rightarrow> int" where
  "le_decode bs = foldr (\<lambda>b acc. uint b + 256 * acc) bs 0"

definition field :: "nat \<Rightarrow> nat \<Rightarrow> byte list \<Rightarrow> byte list" where
  "field offset k bs = take k (drop offset bs)"

definition u64_at :: "nat \<Rightarrow> byte list \<Rightarrow> int" where
  "u64_at offset bs = le_decode (field offset 8 bs)"

text \<open>
  The file opened with \<open>'wb'\<close> is the list of the bytes written so far: \<open>f.write\<close>
  appends, \<open>f.tell()\<close> is the number of bytes written.
\<close>

definition f_write :: "byte list \<Rightarrow> byte list \<Rightarrow> byte list" where
  "f_write f bs = f @ bs"

definition f_tell :: "byte list \<Rightarrow> int" where
  "f_tell f = int (length f)"

text \<open>\<open>b'\x00' * n\<close>: empty when \<open>n \<le> 0\<close>.\<close>

definition zeros :: "int \<Rightarrow> byte list" where
  "zeros n = replicate (nat n) 0"

text \<open>\<open>b"ASTM-E57"\<close>.\<close>

definition signature :: "byte list" where
  "signature = [0x41, 0x53, 0x54, 0x4D, 0x2D, 0x45, 0x35, 0x37]"

section \<open>The three alignment computations\<close>

text \<open>
  Each generator rounds \<open>xml_offset + xml_length\<close> up in its own way. The unit is a
  literal in two of them (8 in \<^verbatim>\<open>create_test_e57_files.py\<close>, 1024 in
  \<^verbatim>\<open>test_data/create_test_files.py\<close>) and the variable \<open>page_size\<close> in
  \<^verbatim>\<open>test_data/create_test_e57_codec_fixed.py\<close>; here it is an argument. Python's \<open>%\<close> and
  \<open>//\<close> round towards minus infinity, as \<open>mod\<close> and \<open>div\<close> on \<open>int\<close> do.
\<close>

text \<open>
  \<^verbatim>\<open>if binary_offset % 8 != 0: binary_offset += 8 - (binary_offset % 8)\<close>
\<close>

definition align_cond :: "int \<Rightarrow> int \<Rightarrow> int" where
  "align_cond unit binary_offset =
     (if binary_offset mod unit \<noteq> 0 then binary_offset + (unit - binary_offset mod unit)
      else binary_offset)"

text \<open>
  \<^verbatim>\<open>padding_needed = (1024 - (binary_offset % 1024)) % 1024\<close>
\<close>

definition padding_needed :: "int \<Rightarrow> int \<Rightarrow> int" where
  "padding_needed unit binary_offset = (unit - binary_offset mod unit) mod unit"

text \<open>
  \<^verbatim>\<open>binary_offset += padding_needed\<close>
\<close>

definition align_modpad :: "int \<Rightarrow> int \<Rightarrow> int" where
  "align_modpad unit binary_offset = binary_offset + padding_needed unit binary_offset"

text \<open>
  \<^verbatim>\<open>binary_offset = ((binary_offset + page_size - 1) // page_size) * page_size\<close>
\<close>

definition align_ceil :: "int \<Rightarrow> int \<Rightarrow> int" where
  "align_ceil page_size binary_offset =
     ((binary_offset + page_size - 1) div page_size) * page_size"

text \<open>The rounding function of the specification's layout calculator.\<close>

definition roundUp :: "int \<Rightarrow> int \<Rightarrow> int" where
  "roundUp v unit = v + ((unit - (v mod unit)) mod unit)"

section \<open>\<^verbatim>\<open>create_test_e57_files.py\<close>: the default generator\<close>

text \<open>
  \<open>create_e57_header\<close>: the 48 bytes and \<open>xml_offset\<close>. Every packed value is a literal
  in range, so no \<open>struct.error\<close> arises here.
\<close>

definition create_e57_header :: "byte list \<times> int" where
  "create_e57_header =
     (let xml_offset = 48 in
      (signature @ le_bytes 4 1 @ le_bytes 4 0 @ le_bytes 8 0 @ le_bytes 8 xml_offset
         @ le_bytes 8 0 @ le_bytes 8 1024,
       xml_offset))"

text \<open>
  The two assignments that update the header in \<open>create_e57_file\<close>:
  \<^verbatim>\<open>header[16:24] = struct.pack('<Q', file_length)\<close> and then
  \<^verbatim>\<open>header[32:40] = struct.pack('<Q', xml_length)\<close>.
\<close>

definition update_header :: "byte list \<Rightarrow> int \<Rightarrow> int \<Rightarrow> error + byte list" where
  "update_header header file_length xml_length =
     (case pack_Q file_length of
        Inl e \<Rightarrow> Inl e
      | Inr fl \<Rightarrow>
          (case pack_Q xml_length of
             Inl e \<Rightarrow> Inl e
           | Inr xl \<Rightarrow> Inr (slice_assign (slice_assign header 16 24 fl) 32 40 xl)))"

text \<open>The binary offset and the file length \<open>create_e57_file\<close> computes.\<close>

definition binary_offset_of :: "byte list \<Rightarrow> int" where
  "binary_offset_of xml_content =
     (let (header, xml_offset) = create_e57_header;
          xml_length = int (length xml_content)
      in align_cond 8 (xml_offset + xml_length))"

definition file_length_of :: "byte list \<Rightarrow> byte list \<Rightarrow> int" where
  "file_length_of xml_content point_data =
     binary_offset_of xml_content + int (length point_data)"

text \<open>
  \<open>create_e57_file\<close>, without the file name and the printing: the result is the content
  of the file, or the error raised before the file is opened.
\<close>

definition create_e57_file :: "byte list \<Rightarrow> byte list \<Rightarrow> error + byte list" where
  "create_e57_file xml_content point_data =
     (let (header, xml_offset) = create_e57_header;
          xml_length = int (length xml_content);
          binary_offset = binary_offset_of xml_content;
          file_length = file_length_of xml_content point_data
      in case update_header header file_length xml_length of
           Inl e \<Rightarrow> Inl e
         | Inr header \<Rightarrow>
             (let f = f_write [] header;
                  f = f_write f xml_content;
                  current_pos = f_tell f;
                  f = (if current_pos < binary_offset
                       then f_write f (zeros (binary_offset - current_pos)) else f)
              in Inr (f_write f point_data)))"

section \<open>Strings\<close>

text \<open>
  A Python \<open>str\<close> is a \<open>string\<close>. Every literal of the generators is ASCII, where
  UTF-8 is one byte per character; a character from 128 to 255 (its bit 7 is set) is
  encoded in two bytes.
\<close>

definition utf8_char :: "char \<Rightarrow> byte list" where
  "utf8_char c =
     (if digit7 c
      then [of_nat (192 + of_char c div 64), of_nat (128 + of_char c mod 64)]
      else [of_char c])"

definition encode_utf8 :: "string \<Rightarrow> byte list" where
  "encode_utf8 s = concat (map utf8_char s)"

text \<open>\<open>str(n)\<close> of an integer: decimal digits, with a minus sign when negative.\<close>

fun str_nat :: "nat \<Rightarrow> string" where
  "str_nat n =
     (if n < 10 then [''0123456789'' ! n]
      else str_nat (n div 10) @ [''0123456789'' ! (n mod 10)])"

declare str_nat.simps [simp del]

definition str_int :: "int \<Rightarrow> string" where
  "str_int i = (if i < 0 then CHR ''-'' # str_nat (nat (- i)) else str_nat (nat i))"

text \<open>\<open>s.startswith(p)\<close>.\<close>

definition startswith :: "string \<Rightarrow> string \<Rightarrow> bool" where
  "startswith s p = (take (length p) s = p)"

text \<open>
  \<open>s.replace(old, new)\<close>: every occurrence of \<open>old\<close>, found from the left without
  overlap, becomes \<open>new\<close>; an empty \<open>old\<close> matches before every character and at the
  end.
\<close>

function replace :: "string \<Rightarrow> string \<Rightarrow> string \<Rightarrow> string" where
  "replace s old new =
     (if old = [] then new @ concat (map (\<lambda>c. c # new) s)
      else if s = [] then []
      else if startswith s old then new @ replace (drop (length old) s) old new
      else hd s # replace (tl s) old new)"
  by pat_completeness auto
termination
  by (relation "measure (\<lambda>(s, old, new). length s)") auto

declare replace.simps [simp del]

text \<open>The text \<open>xml_content\<close> of \<open>create_compressed_vector_xml\<close>.\<close>

definition compressed_vector_xml_content :: "string" where
  \<open>compressed_vector_xml_content =
     ''<?xml version="1.0" encoding="UTF-8"?>\<newline>'' @
     ''<e57Root type="Structure" xmlns="http://www.astm.org/COMMIT/E57/2010-e57-v1.0">\<newline>'' @
     ''    <formatName type="String"><![CDATA[ASTM E57 3D Imaging Data File]]></formatName>\<newline>'' @
     ''    <guid type="String"><![CDATA[{12345678-1234-5678-9ABC-123456789ABC}]]></guid>\<newline>'' @
     ''    <versionMajor type="Integer">1</versionMajor>\<newline>'' @
     ''    <versionMinor type="Integer">0</versionMinor>\<newline>'' @
     ''    <e57LibraryVersion type="String"><![CDATA[Test Library 1.0]]></e57LibraryVersion>\<newline>'' @
     ''    <coordinateMetadata type="String"><![CDATA[Test coordinate metadata]]></coordinateMetadata>\<newline>'' @
     ''    <data3D type="Vector" allowHeterogeneousChildren="1">\<newline>'' @
     ''        <vectorChild type="Structure">\<newline>'' @
     ''            <guid type="String"><![CDATA[{87654321-4321-8765-CBA9-987654321CBA}]]></guid>\<newline>'' @
     ''            <name type="String"><![CDATA[Test Point Cloud]]></name>\<newline>'' @
     ''            <description type="String"><![CDATA[Test point cloud with CompressedVector]]></description>\<newline>'' @
     ''            <points type="CompressedVector" fileOffset="'' @
     str_int (48 + 1200) @
     ''" recordCount="3">\<newline>'' @
     ''                <prototype type="Structure">\<newline>'' @
     ''                    <cartesianX type="Float" precision="single" minimum="-1000.0" maximum="1000.0"/>\<newline>'' @
     ''                    <cartesianY type="Float" precision="single" minimum="-1000.0" maximum="1000.0"/>\<newline>'' @
     ''                    <cartesianZ type="Float" precision="single" minimum="-1000.0" maximum="1000.0"/>\<newline>'' @
     ''                </prototype>\<newline>'' @
     ''                <codecs type="Vector" allowHeterogeneousChildren="1">\<newline>'' @
     ''                    <vectorChild type="CompressedVectorNode" recordCount="3" fileOffset="'' @
     str_int (48 + 1200) @
     ''">\<newline>'' @
     ''                        <prototype type="Structure">\<newline>'' @
     ''                            <cartesianX type="Float" precision="single"/>\<newline>'' @
     ''                            <cartesianY type="Float" precision="single"/>\<newline>'' @
     ''                            <cartesianZ type="Float" precision="single"/>\<newline>'' @
     ''                        </prototype>\<newline>'' @
     ''                    </vectorChild>\<newline>'' @
     ''                </codecs>\<newline>'' @
     ''            </points>\<newline>'' @
     ''        </vectorChild>\<newline>'' @
     ''    </data3D>\<newline>'' @
     ''</e57Root>''\<close>

text \<open>The text \<open>xml_content\<close> of \<open>create_malformed_xml\<close>.\<close>

definition malformed_xml_content :: "string" where
  \<open>malformed_xml_content =
     ''<?xml version="1.0" encoding="UTF-8"?>\<newline>'' @
     ''<e57Root type="Structure" xmlns="http://www.astm.org/COMMIT/E57/2010-e57-v1.0">\<newline>'' @
     ''    <formatName type="String"><![CDATA[ASTM E57 3D Imaging Data File]]></formatName>\<newline>'' @
     ''    <data3D type="Vector" allowHeterogeneousChildren="1">\<newline>'' @
     ''        <vectorChild type="Structure">\<newline>'' @
     ''            <points type="CompressedVector" fileOffset="'' @
     str_int (48 + 800) @
     ''" recordCount="invalid_count">\<newline>'' @
     ''                <prototype type="Structure">\<newline>'' @
     ''                    <cartesianX type="Float" precision="single"/>\<newline>'' @
     ''                    <!-- Missing cartesianY and cartesianZ -->\<newline>'' @
     ''                </prototype>\<newline>'' @
     ''                <codecs type="Vector" allowHeterogeneousChildren="1">\<newline>'' @
     ''                    <!-- Missing CompressedVectorNode -->\<newline>'' @
     ''                </codecs>\<newline>'' @
     ''            </points>\<newline>'' @
     ''        </vectorChild>\<newline>'' @
     ''    </data3D>\<newline>'' @
     ''</e57Root>''\<close>

text \<open>The text \<open>xml\<close> of \<open>create_compressed_vector_xml\<close> in \<^verbatim>\<open>test_data/create_test_files.py\<close>.\<close>

definition compressed_vector_xml_content_td :: "string" where
  \<open>compressed_vector_xml_content_td =
     ''<?xml version="1.0" encoding="UTF-8"?>\<newline>'' @
     ''<e57Root type="Structure">\<newline>'' @
     ''    <formatName type="String">ASTM E57 3D Imaging Data File</formatName>\<newline>'' @
     ''    <guid type="String">{12345678-1234-1234-1234-123456789012}</guid>\<newline>'' @
     ''    <versionMajor type="Integer">1</versionMajor>\<newline>'' @
     ''    <versionMinor type="Integer">0</versionMinor>\<newline>'' @
     ''    <e57LibraryVersion type="String">Sprint1.2-Test</e57LibraryVersion>\<newline>'' @
     ''    <coordinateMetadata type="String">Test coordinate system</coordinateMetadata>\<newline>'' @
     ''    <data3D type="Vector" allowHeterogeneousChildren="1">\<newline>'' @
     ''        <vectorChild type="Structure">\<newline>'' @
     ''            <guid type="String">{87654321-4321-4321-4321-210987654321}</guid>\<newline>'' @
     ''            <name type="String">Test CompressedVector Scan</name>\<newline>'' @
     ''            <description type="String">Test scan with CompressedVector structure</description>\<newline>'' @
     ''            <points type="CompressedVector" fileOffset="0" recordCount="3">\<newline>'' @
     ''                <prototype type="Structure">\<newline>'' @
     ''                    <cartesianX type="Float" precision="single"/>\<newline>'' @
     ''                    <cartesianY type="Float" precision="single"/>\<newline>'' @
     ''                    <cartesianZ type="Float" precision="single"/>\<newline>'' @
     ''                </prototype>\<newline>'' @
     ''                <codecs type="Vector" allowHeterogeneousChildren="1">\<newline>'' @
     ''                    <vectorChild type="CompressedVectorNode" recordCount="3" fileOffset="2048">\<newline>'' @
     ''                        <prototype type="Structure">\<newline>'' @
     ''                            <cartesianX type="Float" precision="single"/>\<newline>'' @
     ''                            <cartesianY type="Float" precision="single"/>\<newline>'' @
     ''                            <cartesianZ type="Float" precision="single"/>\<newline>'' @
     ''                        </prototype>\<newline>'' @
     ''                    </vectorChild>\<newline>'' @
     ''                </codecs>\<newline>'' @
     ''            </points>\<newline>'' @
     ''        </vectorChild>\<newline>'' @
     ''    </data3D>\<newline>'' @
     ''</e57Root>''\<close>

text \<open>The f-string \<open>xml_content\<close> of \<open>create_e57_with_bitpack_codec\<close>, with the value of
  \<open>binary_offset\<close> it is formatted with (\<open>{{\<close> and \<open>}}\<close> stand for one brace each).\<close>

definition bitpack_xml_content :: "int \<Rightarrow> string" where
  \<open>bitpack_xml_content binary_offset =
     ''<?xml version="1.0" encoding="UTF-8"?>\<newline>'' @
     ''<e57Root type="Structure" xmlns="http://www.astm.org/COMMIT/E57/2010-e57-v1.0">\<newline>'' @
     ''    <formatName type="String">ASTM E57 3D Imaging Data File</formatName>\<newline>'' @
     ''    <guid type="String">{12345678-1234-1234-1234-123456789ABC}</guid>\<newline>'' @
     ''    <versionMajor type="Integer">1</versionMajor>\<newline>'' @
     ''    <versionMinor type="Integer">0</versionMinor>\<newline>'' @
     ''    <e57LibraryVersion type="String">Sprint2.1-Test</e57LibraryVersion>\<newline>'' @
     ''    <coordinateMetadata type="String">Test coordinate system</coordinateMetadata>\<newline>'' @
     ''    <data3D type="Vector" allowHeterogeneousChildren="1">\<newline>'' @
     ''        <vectorChild type="Structure">\<newline>'' @
     ''            <guid type="String">{87654321-4321-4321-4321-210987654321}</guid>\<newline>'' @
     ''            <name type="String">Test Point Cloud</name>\<newline>'' @
     ''            <description type="String">Test point cloud data for Sprint 2.1</description>\<newline>'' @
     ''            <points type="CompressedVector" fileOffset="'' @
     str_int binary_offset @
     ''" recordCount="3">\<newline>'' @
     ''                <prototype type="Structure">\<newline>'' @
     ''                    <cartesianX type="Float" precision="single"/>\<newline>'' @
     ''                    <cartesianY type="Float" precision="single"/>\<newline>'' @
     ''                    <cartesianZ type="Float" precision="single"/>\<newline>'' @
     ''                </prototype>\<newline>'' @
     ''                <codecs type="Vector">\<newline>'' @
     ''                    <vector type="CompressedVectorNode">\<newline>'' @
     ''                        <bitPackCodec type="Structure"/>\<newline>'' @
     ''                        <recordCount type="Integer">3</recordCount>\<newline>'' @
     ''                        <binarySection type="String">test_binary_section</binarySection>\<newline>'' @
     ''                    </vector>\<newline>'' @
     ''                </codecs>\<newline>'' @
     ''            </points>\<newline>'' @
     ''        </vectorChild>\<newline>'' @
     ''    </data3D>\<newline>'' @
     ''</e57Root>''\<close>

text \<open>\<open>create_compressed_vector_xml\<close> and \<open>create_malformed_xml\<close> return the encoded text.\<close>

definition create_compressed_vector_xml :: "byte list" where
  "create_compressed_vector_xml = encode_utf8 compressed_vector_xml_content"

definition create_malformed_xml :: "byte list" where
  "create_malformed_xml = encode_utf8 malformed_xml_content"

text \<open>
  \<open>create_point_data\<close> packs the nine coordinates 1.0, ..., 9.0 with \<open>struct.pack('<f', _)\<close>.
  Floating-point conversion is not modelled: these are the 36 bytes of the nine
  single-precision values (1.0 is \<open>0x3F800000\<close>, 2.0 is \<open>0x40000000\<close>, ...), least
  significant byte first. The generators only copy them and take their length.
\<close>

definition create_point_data :: "byte list" where
  "create_point_data =
     [0x00, 0x00, 0x80, 0x3F,  0x00, 0x00, 0x00, 0x40,  0x00, 0x00, 0x40, 0x40,
      0x00, 0x00, 0x80, 0x40,  0x00, 0x00, 0xA0, 0x40,  0x00, 0x00, 0xC0, 0x40,
      0x00, 0x00, 0xE0, 0x40,  0x00, 0x00, 0x00, 0x41,  0x00, 0x00, 0x10, 0x41]"

section \<open>\<^verbatim>\<open>test_data/create_test_files.py\<close>: the page-aligned generator\<close>

text \<open>
  The functions of this script have the names of the default generator's; theirs carry the
  suffix \<open>_td\<close>. \<open>create_e57_header\<close> returns the header alone here.
\<close>

definition create_e57_header_td :: "byte list" where
  "create_e57_header_td =
     (let xml_offset = 48 in
      signature @ le_bytes 4 1 @ le_bytes 4 0 @ le_bytes 8 0 @ le_bytes 8 xml_offset
        @ le_bytes 8 0 @ le_bytes 8 1024)"

definition create_compressed_vector_xml_td :: "byte list" where
  "create_compressed_vector_xml_td = encode_utf8 compressed_vector_xml_content_td"

text \<open>
  The two calls that update the header in this script's \<open>create_e57_file\<close>:
  \<^verbatim>\<open>struct.pack_into('<Q', header, 24, total_length)  # File physical length\<close> and then
  \<^verbatim>\<open>struct.pack_into('<Q', header, 40, xml_length)    # XML length\<close>.
\<close>

definition update_header_td :: "byte list \<Rightarrow> int \<Rightarrow> int \<Rightarrow> error + byte list" where
  "update_header_td header total_length xml_length =
     (case pack_into_Q header 24 total_length of
        Inl e \<Rightarrow> Inl e
      | Inr header \<Rightarrow> pack_into_Q header 40 xml_length)"

text \<open>The binary offset and the total length this script's \<open>create_e57_file\<close> computes.\<close>

definition binary_offset_td :: "byte list \<Rightarrow> int" where
  "binary_offset_td xml_data =
     (let header = create_e57_header_td;
          xml_offset = int (length header);
          xml_length = int (length xml_data)
      in align_modpad 1024 (xml_offset + xml_length))"

definition total_length_td :: "byte list \<Rightarrow> byte list \<Rightarrow> int" where
  "total_length_td xml_data point_data = binary_offset_td xml_data + int (length point_data)"

definition create_e57_file_td :: "byte list \<Rightarrow> byte list \<Rightarrow> error + byte list" where
  "create_e57_file_td xml_data point_data =
     (let header = create_e57_header_td;
          xml_offset = int (length header);
          xml_length = int (length xml_data);
          binary_offset = xml_offset + xml_length;
          padding = zeros (padding_needed 1024 binary_offset);
          total_length = total_length_td xml_data point_data
      in case update_header_td header total_length xml_length of
           Inl e \<Rightarrow> Inl e
         | Inr header \<Rightarrow>
             (let f = f_write [] header;
                  f = f_write f xml_data;
                  f = f_write f padding
              in Inr (f_write f point_data)))"

section \<open>\<^verbatim>\<open>test_data/create_test_e57_codec_fixed.py\<close>: the bit-pack codec generator\<close>

text \<open>
  \<open>create_e57_with_bitpack_codec\<close> takes no argument: \<open>page_size = 1024\<close> is a local
  variable, written into the header and used by both alignments, and \<open>point_data\<close> is
  packed from nine literals. The model takes both as arguments, so that what depends on
  them can be said; the script is the instance at \<open>1024\<close> and \<open>create_point_data\<close>. A
  \<open>page_size\<close> of zero would raise \<open>ZeroDivisionError\<close> at the first \<open>//\<close>.
\<close>

text \<open>The first computation of \<open>binary_offset\<close>, from the estimated XML size.\<close>

definition estimated_binary_offset :: "int \<Rightarrow> int" where
  "estimated_binary_offset page_size =
     (let xml_offset = 48;
          estimated_xml_size = 1600;
          binary_offset = xml_offset + estimated_xml_size
      in align_ceil page_size binary_offset)"

text \<open>The second one, from the length of the encoded text.\<close>

definition bitpack_binary_offset :: "int \<Rightarrow> int" where
  "bitpack_binary_offset page_size =
     (let xml_offset = 48;
          xml_content = bitpack_xml_content (estimated_binary_offset page_size);
          xml_bytes = encode_utf8 xml_content;
          xml_length = int (length xml_bytes);
          binary_offset = xml_offset + xml_length
      in align_ceil page_size binary_offset)"

text \<open>
  The text after
  \<^verbatim>\<open>xml_content.replace(f'fileOffset="{xml_offset + estimated_xml_size}"', f'fileOffset="{binary_offset}"')\<close>.
\<close>

definition bitpack_xml_final :: "int \<Rightarrow> string" where
  \<open>bitpack_xml_final page_size =
     (let xml_offset = 48;
          estimated_xml_size = 1600;
          xml_content = bitpack_xml_content (estimated_binary_offset page_size);
          binary_offset = bitpack_binary_offset page_size
      in replace xml_content
           (''fileOffset="'' @ str_int (xml_offset + estimated_xml_size) @ ''"'')
           (''fileOffset="'' @ str_int binary_offset @ ''"''))\<close>

text \<open>
  \<open>f.write(struct.pack(_, v))\<close> on a file that is open: \<open>f\<close> is the content so far, or
  the error an earlier statement raised.
\<close>

definition write_packed :: "error + byte list \<Rightarrow> error + byte list \<Rightarrow> error + byte list" where
  "write_packed f packed =
     (case f of
        Inl e \<Rightarrow> Inl e
      | Inr bs \<Rightarrow> (case packed of Inl e \<Rightarrow> Inl e | Inr b \<Rightarrow> Inr (f_write bs b)))"

text \<open>
  The writes, in order. The file is open while the header fields are packed, so an error
  leaves a partial file behind; the result is the content of the complete file, or the error.
\<close>

definition bitpack_file :: "int \<Rightarrow> byte list \<Rightarrow> error + byte list" where
  "bitpack_file page_size point_data =
     (if page_size = 0 then Inl ZeroDivisionError
      else
        let major_version = 1;
            minor_version = 0;
            xml_offset = 48;
            binary_offset = bitpack_binary_offset page_size;
            file_physical_length = binary_offset + int (length point_data);
            xml_bytes = encode_utf8 (bitpack_xml_final page_size);
            xml_length = int (length xml_bytes);
            f = Inr (f_write [] signature);
            f = write_packed f (pack_I major_version);
            f = write_packed f (pack_I minor_version);
            f = write_packed f (pack_Q file_physical_length);
            f = write_packed f (pack_Q xml_offset);
            f = write_packed f (pack_Q xml_length);
            f = write_packed f (pack_Q page_size)
        in case f of
             Inl e \<Rightarrow> Inl e
           | Inr f \<Rightarrow>
               (let f = f_write f xml_bytes;
                    current_pos = f_tell f;
                    padding_needed = binary_offset - current_pos;
                    f = (if padding_needed > 0 then f_write f (zeros padding_needed) else f)
                in Inr (f_write f point_data)))"

definition create_e57_with_bitpack_codec :: "error + byte list" where
  "create_e57_with_bitpack_codec = bitpack_file 1024 create_point_data"

section \<open>Reading an XML document\<close>

text \<open>
  The generators emit XML as text. To say what a document declares, the text is read
  back into a tree by a small reader for the XML the generators use: an optional XML
  declaration, then one root element; start tags, end tags and empty-element tags with
  attributes \<open>name="value"\<close>; character data, CDATA sections and comments. The reader is
  strict where it does not implement a rule of XML 1.0: it refuses references (\<open>&\<close>),
  document type declarations, processing instructions, attribute values in single
  quotes, and \<open><\<close> or \<open>>\<close> anywhere but at the ends of a tag, a comment or a CDATA
  section. A text it accepts has its markup terminated, its tags nested and matched, its
  names well formed and its attributes unique in their tag.

  The functions that walk a whole document choose their case by a small value (a truth
  value or a token) and not by a conditional around the rest of the document.
\<close>

datatype xml =
    Element string "(string \<times> string) list" "xml list"
  | Text string
  | CData string
  | Comment string

datatype token =
    TOpen string "(string \<times> string) list"
  | TEmpty string "(string \<times> string) list"
  | TClose string
  | TText string
  | TCData string
  | TComment string

definition is_space :: "char \<Rightarrow> bool" where
  "is_space c = (c = CHR '' '' \<or> c = CHR 0x09 \<or> c = CHR 0x0A \<or> c = CHR 0x0D)"

definition is_name_start :: "char \<Rightarrow> bool" where
  "is_name_start c =
     (let n = (of_char c :: nat)
      in (65 \<le> n \<and> n \<le> 90) \<or> (97 \<le> n \<and> n \<le> 122) \<or> c = CHR ''_'' \<or> c = CHR '':'')"

definition is_name_char :: "char \<Rightarrow> bool" where
  "is_name_char c =
     (let n = (of_char c :: nat)
      in is_name_start c \<or> (48 \<le> n \<and> n \<le> 57) \<or> c = CHR ''-'' \<or> c = CHR ''.'')"

definition is_name :: "string \<Rightarrow> bool" where
  "is_name s = (case s of [] \<Rightarrow> False | c # cs \<Rightarrow> is_name_start c \<and> list_all is_name_char cs)"

fun first_is :: "char \<Rightarrow> string \<Rightarrow> bool" where
  "first_is c [] = False"
| "first_is c (x # xs) = (x = c)"

text \<open>The reverse of a text, with an accumulator.\<close>

fun rev_onto :: "string \<Rightarrow> string \<Rightarrow> string" where
  "rev_onto acc [] = acc"
| "rev_onto acc (c # cs) = rev_onto (c # acc) cs"

definition reverse :: "string \<Rightarrow> string" where
  "reverse s = rev_onto [] s"

definition endswith :: "string \<Rightarrow> string \<Rightarrow> bool" where
  "endswith s p = startswith (reverse s) (reverse p)"

text \<open>The text without its last \<open>n\<close> characters, and without the white space at its end.\<close>

definition drop_last :: "nat \<Rightarrow> string \<Rightarrow> string" where
  "drop_last n s = reverse (drop n (reverse s))"

definition rstrip :: "string \<Rightarrow> string" where
  "rstrip s = reverse (dropWhile is_space (reverse s))"

text \<open>\<open>contains s d\<close>: \<open>d\<close> occurs in \<open>s\<close>.\<close>

fun contains :: "string \<Rightarrow> string \<Rightarrow> bool" where
  "contains [] d = (d = [])"
| "contains (c # cs) d = (startswith (c # cs) d \<or> contains cs d)"

text \<open>
  The chunks of a text: it is cut before every \<open><\<close> and after every \<open>>\<close>, so a tag, a
  comment or a CDATA section is one chunk and the character data between two of them is
  another. The text is walked from its end: a character starts a chunk of its own when
  it is \<open>>\<close> or when the chunk after it starts with \<open><\<close>, and joins the chunk after it
  otherwise.
\<close>

fun head_is_markup :: "string list \<Rightarrow> bool" where
  "head_is_markup [] = False"
| "head_is_markup (ch # chs) = first_is CHR ''<'' ch"

fun glue :: "bool \<Rightarrow> char \<Rightarrow> string list \<Rightarrow> string list" where
  "glue True c chs = [c] # chs"
| "glue False c [] = [[c]]"
| "glue False c (ch # chs) = (c # ch) # chs"

definition cut :: "char \<Rightarrow> string list \<Rightarrow> string list" where
  "cut c chs = glue (c = CHR ''>'' \<or> head_is_markup chs) c chs"

fun chunks :: "string \<Rightarrow> string list" where
  "chunks [] = []"
| "chunks (c # cs) = cut c (chunks cs)"

text \<open>The pieces of a text between the occurrences of a character.\<close>

fun split_glue :: "bool \<Rightarrow> char \<Rightarrow> string list \<Rightarrow> string list" where
  "split_glue True c ps = [] # ps"
| "split_glue False c [] = [[c]]"
| "split_glue False c (p # ps) = (c # p) # ps"

fun split_at :: "char \<Rightarrow> string \<Rightarrow> string list" where
  "split_at q [] = [[]]"
| "split_at q (c # cs) = split_glue (c = q) c (split_at q cs)"

text \<open>
  The attributes of a tag, from the text after its name cut at the double quotes: a piece
  \<open>white space, name, =\<close>, then a value, and so on, then white space at most.
\<close>

definition attr_key :: "string \<Rightarrow> string option" where
  "attr_key k =
     (let a = dropWhile is_space k;
          n = takeWhile is_name_char a;
          r = dropWhile is_space (dropWhile is_name_char a)
      in if a \<noteq> k \<and> is_name n \<and> first_is CHR ''='' r \<and> list_all is_space (tl r)
         then Some n else None)"

fun attr_pairs :: "string list \<Rightarrow> (string \<times> string) list option" where
  "attr_pairs [] = None"
| "attr_pairs [p] = (if list_all is_space p then Some [] else None)"
| "attr_pairs (k # v # ps) =
     (case attr_key k of
        None \<Rightarrow> None
      | Some key \<Rightarrow>
          if CHR ''<'' \<in> set v \<or> CHR ''&'' \<in> set v then None
          else map_option (Cons (key, v)) (attr_pairs ps))"

text \<open>A tag's name and attributes, from the text between \<open><\<close> and \<open>>\<close> (or \<open>/>\<close>).\<close>

definition read_tag :: "string \<Rightarrow> (string \<times> (string \<times> string) list) option" where
  "read_tag inner =
     (let name = takeWhile is_name_char inner
      in if is_name name
         then case attr_pairs (split_at (CHR 0x22) (dropWhile is_name_char inner)) of
                None \<Rightarrow> None
              | Some as \<Rightarrow> if distinct (map fst as) then Some (name, as) else None
         else None)"

text \<open>
  The token of a chunk. A chunk that starts with \<open><\<close> has to end with \<open>>\<close>, with neither
  of them in between; \<open>inner\<close> is the text between the two.
\<close>

definition markup_token :: "string \<Rightarrow> token option" where
  "markup_token inner =
     (if startswith inner ''!--'' then
        (let body = drop 3 inner
         in if 2 \<le> length body \<and> endswith body ''--'' \<and> \<not> contains (drop_last 2 body) ''--''
            then Some (TComment (drop_last 2 body)) else None)
      else if startswith inner ''![CDATA['' then
        (let body = drop 8 inner
         in if 2 \<le> length body \<and> endswith body '']]''
            then Some (TCData (drop_last 2 body)) else None)
      else if first_is CHR ''/'' inner then
        (let name = rstrip (tl inner)
         in if is_name name then Some (TClose name) else None)
      else if endswith inner ''/'' then
        (case read_tag (drop_last 1 inner) of
           None \<Rightarrow> None
         | Some (name, as) \<Rightarrow> Some (TEmpty name as))
      else
        (case read_tag inner of
           None \<Rightarrow> None
         | Some (name, as) \<Rightarrow> Some (TOpen name as)))"

definition token_of :: "string \<Rightarrow> token option" where
  "token_of ch =
     (if first_is CHR ''<'' ch then
        (if endswith (tl ch) ''>'' \<and> CHR ''<'' \<notin> set (tl ch)
            \<and> CHR ''>'' \<notin> set (drop_last 1 (tl ch))
         then markup_token (drop_last 1 (tl ch)) else None)
      else if CHR ''<'' \<in> set ch \<or> CHR ''>'' \<in> set ch \<or> CHR ''&'' \<in> set ch then None
      else Some (TText ch))"

fun cons_opt :: "'a option \<Rightarrow> 'a list option \<Rightarrow> 'a list option" where
  "cons_opt (Some x) (Some xs) = Some (x # xs)"
| "cons_opt (Some x) None = None"
| "cons_opt None r = None"

fun tokens :: "string list \<Rightarrow> token list option" where
  "tokens [] = Some []"
| "tokens (ch # chs) = cons_opt (token_of ch) (tokens chs)"

text \<open>
  The tree of a token list. The state is the stack of the elements that are open,
  innermost first, each with its name, its attributes and the children read so far in
  reverse; the last frame, with an empty name, collects the nodes outside every element.
  \<open>None\<close> is the state after a mismatch.
\<close>

type_synonym frame = "string \<times> (string \<times> string) list \<times> xml list"

fun push :: "xml \<Rightarrow> frame list \<Rightarrow> frame list option" where
  "push x [] = None"
| "push x ((name, as, children) # stack) = Some ((name, as, x # children) # stack)"

fun close_frame :: "bool \<Rightarrow> frame \<Rightarrow> frame list \<Rightarrow> frame list option" where
  "close_frame True (name, as, children) stack = push (Element name as (rev children)) stack"
| "close_frame False f stack = None"

fun close_element :: "string \<Rightarrow> frame list \<Rightarrow> frame list option" where
  "close_element name [] = None"
| "close_element name (f # stack) = close_frame (fst f = name) f stack"

fun build_step :: "token \<Rightarrow> frame list option \<Rightarrow> frame list option" where
  "build_step t None = None"
| "build_step (TOpen name as) (Some stack) = Some ((name, as, []) # stack)"
| "build_step (TEmpty name as) (Some stack) = push (Element name as []) stack"
| "build_step (TClose name) (Some stack) = close_element name stack"
| "build_step (TText a) (Some stack) = push (Text a) stack"
| "build_step (TCData a) (Some stack) = push (CData a) stack"
| "build_step (TComment a) (Some stack) = push (Comment a) stack"

fun build :: "frame list option \<Rightarrow> token list \<Rightarrow> frame list option" where
  "build st [] = st"
| "build st (t # ts) = build (build_step t st) ts"

fun is_element :: "xml \<Rightarrow> bool" where
  "is_element (Element name as children) = True"
| "is_element x = False"

fun is_misc :: "xml \<Rightarrow> bool" where
  "is_misc (Text a) = list_all is_space a"
| "is_misc (Comment a) = True"
| "is_misc x = False"

text \<open>
  The root element among the nodes outside every element: exactly one element, and only
  white space and comments beside it.
\<close>

definition root_of :: "frame list option \<Rightarrow> xml option" where
  "root_of st =
     (case st of
        Some [(name, as, nodes)] \<Rightarrow>
          (case filter is_element nodes of
             [root] \<Rightarrow>
               if name = [] \<and> list_all is_misc (filter (\<lambda>x. \<not> is_element x) nodes)
               then Some root else None
           | _ \<Rightarrow> None)
      | _ \<Rightarrow> None)"

text \<open>The XML declaration, which may only be the first chunk, is left out.\<close>

definition is_decl :: "string \<Rightarrow> bool" where
  "is_decl ch = (startswith ch ''<?xml'' \<and> endswith ch ''?>'' \<and> CHR ''<'' \<notin> set (tl ch))"

fun drop_decl :: "string list \<Rightarrow> string list" where
  "drop_decl [] = []"
| "drop_decl (ch # chs) = (if is_decl ch then chs else ch # chs)"

text \<open>The root element of a document, or \<open>None\<close> when the reader refuses the text.\<close>

definition parse_xml :: "string \<Rightarrow> xml option" where
  "parse_xml s =
     (case tokens (drop_decl (chunks s)) of
        None \<Rightarrow> None
      | Some ts \<Rightarrow> root_of (build (Some [([], [], [])]) ts))"

text \<open>Observations on a tree.\<close>

fun name_of :: "xml \<Rightarrow> string" where
  "name_of (Element name as children) = name"
| "name_of x = []"

fun attrs_of :: "xml \<Rightarrow> (string \<times> string) list" where
  "attrs_of (Element name as children) = as"
| "attrs_of x = []"

fun children_of :: "xml \<Rightarrow> xml list" where
  "children_of (Element name as children) = children"
| "children_of x = []"

definition attr :: "string \<Rightarrow> xml \<Rightarrow> string option" where
  "attr k e = map_of (attrs_of e) k"

definition child_elements :: "xml \<Rightarrow> xml list" where
  "child_elements e = filter is_element (children_of e)"

text \<open>The element reached from \<open>e\<close> by the first child of each name of a path.\<close>

fun find_path :: "string list \<Rightarrow> xml \<Rightarrow> xml option" where
  "find_path [] e = Some e"
| "find_path (n # ns) e =
     (case filter (\<lambda>c. name_of c = n) (child_elements e) of
        [] \<Rightarrow> None
      | c # cs \<Rightarrow> find_path ns c)"

text \<open>The \<open>points\<close> element of the first scan of a document, and an attribute of it.\<close>

definition points_element :: "string \<Rightarrow> xml option" where
  "points_element s =
     (case parse_xml s of
        None \<Rightarrow> None
      | Some root \<Rightarrow>
          if name_of root = ''e57Root''
          then find_path [''data3D'', ''vectorChild'', ''points''] root else None)"

definition points_attr :: "string \<Rightarrow> string \<Rightarrow> string option" where
  "points_attr k s = (case points_element s of None \<Rightarrow> None | Some e \<Rightarrow> attr k e)"

definition child_names :: "xml \<Rightarrow> string list" where
  "child_names e = map name_of (child_elements e)"

text \<open>The names of the child elements of the element at a path below \<open>points\<close>.\<close>

definition points_child_names :: "string list \<Rightarrow> string \<Rightarrow> string list option" where
  "points_child_names path s =
     (case points_element s of
        None \<Rightarrow> None
      | Some e \<Rightarrow> (case find_path path e of None \<Rightarrow> None | Some c \<Rightarrow> Some (child_names c)))"

text \<open>A text of ASCII characters only: bit 7 of every character is clear.\<close>

definition ascii :: "string \<Rightarrow> bool" where
  "ascii s = list_all (\<lambda>c. \<not> digit7 c) s"

section \<open>The header as a value\<close>

text \<open>
  The container header of the specification, its 48-byte serialisation (the table of the
  on-disk format), and the four length and offset fields read back from an emitted file.
\<close>

record ContainerHeader =
  filePhysicalLength :: int
  xmlOffset :: int
  xmlLength :: int
  pageSize :: int

definition serialize :: "ContainerHeader \<Rightarrow> byte list" where
  "serialize h =
     signature @ le_bytes 4 1 @ le_bytes 4 0 @ le_bytes 8 (filePhysicalLength h)
       @ le_bytes 8 (xmlOffset h) @ le_bytes 8 (xmlLength h) @ le_bytes 8 (pageSize h)"

definition decode_header :: "byte list \<Rightarrow> ContainerHeader" where
  "decode_header out =
     \<lparr>filePhysicalLength = u64_at 16 out, xmlOffset = u64_at 24 out,
      xmlLength = u64_at 32 out, pageSize = u64_at 40 out\<rparr>"

text \<open>A header whose four fields fit their eight bytes.\<close>

definition fits :: "ContainerHeader \<Rightarrow> bool" where
  "fits h = (0 \<le> filePhysicalLength h \<and> filePhysicalLength h < 2 ^ 64 \<and> 0 \<le> xmlOffset h \<and> xmlOffset h < 2 ^ 64
     \<and> 0 \<le> xmlLength h \<and> xmlLength h < 2 ^ 64 \<and> 0 \<le> pageSize h \<and> pageSize h < 2 ^ 64)"

text \<open>The header fields of what a generator returns; \<open>None\<close> when it raised an error.\<close>

definition emitted_header :: "error + byte list \<Rightarrow> ContainerHeader option" where
  "emitted_header r = (case r of Inl e \<Rightarrow> None | Inr out \<Rightarrow> Some (decode_header out))"

text \<open>The bytes of an emitted file from an offset on; empty when the generator raised.\<close>

definition emitted_from :: "int \<Rightarrow> error + byte list \<Rightarrow> byte list" where
  "emitted_from offset r = (case r of Inl e \<Rightarrow> [] | Inr out \<Rightarrow> drop (nat offset) out)"

section \<open>Little-endian fields and the serialised header\<close>


lemma length_le_bytes [simp]: "length (le_bytes k v) = k"
  by (induction k arbitrary: v) simp_all

lemma length_signature [simp]: "length signature = 8"
  by (simp add: signature_def)

lemma le_decode_le_bytes: "0 \<le> v \<Longrightarrow> v < 256 ^ k \<Longrightarrow> le_decode (le_bytes k v) = v"
  unfolding le_decode_def
proof (induction k arbitrary: v)
  case 0 then show ?case by simp
next
  case (Suc k)
  have "v div 256 < 256 ^ k" using Suc.prems by (simp add: div_less_iff_less_mult mult.commute) 
  moreover have "0 \<le> v div 256" using Suc.prems by simp
  ultimately have "foldr (\<lambda>b acc. uint b + 256 * acc) (le_bytes k (v div 256)) 0 = v div 256"
    using Suc.IH by blast
  moreover have "uint (word_of_int (v mod 256) :: byte) = v mod 256"
    by (simp add: uint_word_of_int)
  ultimately show ?case by simp
qed

lemma le_decode_u64: "0 \<le> v \<Longrightarrow> v < 2 ^ 64 \<Longrightarrow> le_decode (le_bytes 8 v) = v"
  using le_decode_le_bytes [of v 8] by simp

lemma length_serialize [simp]: "length (serialize h) = 48"
  by (simp add: serialize_def)

lemma field_16: "field 16 8 (serialize h @ rest) = le_bytes 8 (filePhysicalLength h)"
  by (simp add: field_def serialize_def)

lemma field_24: "field 24 8 (serialize h @ rest) = le_bytes 8 (xmlOffset h)"
  by (simp add: field_def serialize_def)

lemma field_32: "field 32 8 (serialize h @ rest) = le_bytes 8 (xmlLength h)"
  by (simp add: field_def serialize_def)

lemma field_40: "field 40 8 (serialize h @ rest) = le_bytes 8 (pageSize h)"
  by (simp add: field_def serialize_def)

lemma decode_serialize: "fits h \<Longrightarrow> decode_header (serialize h @ rest) = h"
  by (simp add: decode_header_def u64_at_def field_16 field_24 field_32 field_40 le_decode_u64 fits_def)

lemma create_e57_header_serialize:
  "create_e57_header = (serialize \<lparr>filePhysicalLength = 0, xmlOffset = 48, xmlLength = 0, pageSize = 1024\<rparr>, 48)"
  by (simp add: create_e57_header_def serialize_def)

lemma create_e57_header_td_serialize:
  "create_e57_header_td = serialize \<lparr>filePhysicalLength = 0, xmlOffset = 48, xmlLength = 0, pageSize = 1024\<rparr>"
  by (simp add: create_e57_header_td_def serialize_def)

lemma update_header_serialize:
  "0 \<le> fl \<Longrightarrow> fl < 2 ^ 64 \<Longrightarrow> 0 \<le> xl \<Longrightarrow> xl < 2 ^ 64 \<Longrightarrow>
   update_header (serialize h) fl xl = Inr (serialize (h\<lparr>filePhysicalLength := fl, xmlLength := xl\<rparr>))"
  by (simp add: update_header_def pack_Q_def slice_assign_def serialize_def)

lemma update_header_td_serialize:
  "0 \<le> tlen \<Longrightarrow> tlen < 2 ^ 64 \<Longrightarrow> 0 \<le> xl \<Longrightarrow> xl < 2 ^ 64 \<Longrightarrow>
   update_header_td (serialize h) tlen xl = Inr (serialize (h\<lparr>xmlOffset := tlen, pageSize := xl\<rparr>))"
  by (simp add: update_header_td_def pack_into_Q_def pack_Q_def serialize_def)


section \<open>The alignment computations agree\<close>

lemma align_cond_roundUp: "0 < unit \<Longrightarrow> align_cond unit v = roundUp v unit"
proof -
  assume u: "0 < unit"
  show ?thesis
  proof (cases "v mod unit = 0")
    case True
    then show ?thesis by (simp add: align_cond_def roundUp_def)
  next
    case False
    have "0 \<le> v mod unit" "v mod unit < unit" using u by simp_all
    with False have "0 \<le> unit - v mod unit" "unit - v mod unit < unit" by linarith+
    then have "(unit - v mod unit) mod unit = unit - v mod unit"
      by (rule mod_pos_pos_trivial)
    with False show ?thesis by (simp add: align_cond_def roundUp_def)
  qed
qed

lemma align_modpad_roundUp: "align_modpad unit v = roundUp v unit"
  by (simp add: align_modpad_def padding_needed_def roundUp_def)

lemma roundUp_mod: "0 < unit \<Longrightarrow> roundUp v unit mod unit = 0"
proof -
  assume u: "0 < unit"
  show ?thesis
  proof (cases "v mod unit = 0")
    case True
    then show ?thesis by (simp add: roundUp_def)
  next
    case False
    have "0 \<le> v mod unit" "v mod unit < unit" using u by simp_all
    with False have "0 \<le> unit - v mod unit" "unit - v mod unit < unit" by linarith+
    then have "(unit - v mod unit) mod unit = unit - v mod unit"
      by (rule mod_pos_pos_trivial)
    then have "roundUp v unit = v - v mod unit + unit" by (simp add: roundUp_def)
    also have "\<dots> = (v div unit + 1) * unit"
      by (simp add: minus_mod_eq_div_mult algebra_simps)
    finally show ?thesis by simp
  qed
qed

lemma roundUp_bounds: "0 < unit \<Longrightarrow> v \<le> roundUp v unit \<and> roundUp v unit < v + unit"
  unfolding roundUp_def
  using pos_mod_bound [of unit "unit - v mod unit"] pos_mod_sign [of unit "unit - v mod unit"]
  by linarith

lemma roundUp_id_iff: "0 < unit \<Longrightarrow> (roundUp v unit = v) = (v mod unit = 0)"
proof -
  assume u: "0 < unit"
  show ?thesis
  proof
    assume "roundUp v unit = v"
    then show "v mod unit = 0" using roundUp_mod [OF u, of v] by simp
  next
    assume "v mod unit = 0"
    then show "roundUp v unit = v" by (simp add: roundUp_def)
  qed
qed

lemma align_ceil_roundUp: "0 < unit \<Longrightarrow> align_ceil unit v = roundUp v unit"
proof -
  assume u: "0 < unit"
  define q where "q = v div unit"
  define r where "r = v mod unit"
  have v: "v = q * unit + r" by (simp add: q_def r_def)
  have r: "0 \<le> r" "r < unit" using u by (simp_all add: r_def)
  show ?thesis
  proof (cases "r = 0")
    case True
    have "(q * unit + (unit - 1)) div unit = q"
      using u by (simp add: div_pos_pos_trivial)
    then have "align_ceil unit v = q * unit"
      unfolding align_ceil_def using v True by (simp add: algebra_simps)
    moreover have "roundUp v unit = v" using roundUp_id_iff [OF u, of v] True by (simp add: r_def)
    ultimately show ?thesis using v True by simp
  next
    case False
    then have r1: "0 \<le> r - 1" "r - 1 < unit" using r by linarith+
    have "v + unit - 1 = (q + 1) * unit + (r - 1)" using v by (simp add: algebra_simps)
    then have "(v + unit - 1) div unit = (q + 1) + (r - 1) div unit"
      using u by (metis div_mult_self3 less_irrefl)
    also have "(r - 1) div unit = 0" using r1 by (simp add: div_pos_pos_trivial)
    finally have a: "align_ceil unit v = (q + 1) * unit" by (simp add: align_ceil_def)
    have "0 \<le> unit - r" "unit - r < unit" using r False by linarith+
    then have "(unit - r) mod unit = unit - r" by (rule mod_pos_pos_trivial)
    then have "roundUp v unit = v + (unit - r)" by (simp add: roundUp_def r_def)
    with a v show ?thesis by (simp add: algebra_simps)
  qed
qed

lemma binary_offset_of_roundUp:
  "binary_offset_of xml_content = roundUp (48 + int (length xml_content)) 8"
  by (simp add: binary_offset_of_def create_e57_header_def align_cond_roundUp)

lemma binary_offset_td_roundUp:
  "binary_offset_td xml_data = roundUp (48 + int (length xml_data)) 1024"
  by (simp add: binary_offset_td_def create_e57_header_td_def align_modpad_roundUp)

lemma binary_offset_of_bounds:
  "48 + int (length xml_content) \<le> binary_offset_of xml_content"
  "binary_offset_of xml_content < 48 + int (length xml_content) + 8"
  using roundUp_bounds [of 8 "48 + int (length xml_content)"]
  by (simp_all add: binary_offset_of_roundUp)

section \<open>What the default generator writes\<close>

lemma create_e57_file_eq:
  assumes "file_length_of xml_content point_data < 2 ^ 64"
  shows "create_e57_file xml_content point_data =
           Inr (serialize \<lparr>filePhysicalLength = file_length_of xml_content point_data,
                            xmlOffset = 48, xmlLength = int (length xml_content), pageSize = 1024\<rparr>
                @ xml_content
                @ zeros (binary_offset_of xml_content - (48 + int (length xml_content)))
                @ point_data)"
proof -
  let ?fl = "file_length_of xml_content point_data"
  let ?xl = "int (length xml_content)"
  let ?bo = "binary_offset_of xml_content"
  have bo: "48 + ?xl \<le> ?bo" by (rule binary_offset_of_bounds)
  have fl: "0 \<le> ?fl" "?xl < 2 ^ 64" using bo assms by (simp_all add: file_length_of_def)
  have upd: "update_header (fst create_e57_header) ?fl ?xl =
               Inr (serialize \<lparr>filePhysicalLength = ?fl, xmlOffset = 48, xmlLength = ?xl, pageSize = 1024\<rparr>)"
    using fl assms by (simp add: create_e57_header_serialize update_header_serialize)
  have pad: "(if 48 + ?xl < ?bo then zeros (?bo - (48 + ?xl)) else []) = zeros (?bo - (48 + ?xl))"
    by (simp add: zeros_def)
  show ?thesis
    unfolding create_e57_file_def
    using upd pad
    by (simp add: create_e57_header_serialize f_write_def f_tell_def Let_def zeros_def)
qed

section \<open>What the page-aligned generator writes\<close>

lemma padding_needed_nonneg: "0 < unit \<Longrightarrow> 0 \<le> padding_needed unit v"
  by (simp add: padding_needed_def)

lemma binary_offset_td_eq:
  "binary_offset_td xml_data
     = 48 + int (length xml_data) + padding_needed 1024 (48 + int (length xml_data))"
  by (simp add: binary_offset_td_def create_e57_header_td_serialize align_modpad_def Let_def)

lemma create_e57_file_td_eq:
  assumes "total_length_td xml_data point_data < 2 ^ 64"
  shows "create_e57_file_td xml_data point_data =
           Inr (serialize \<lparr>filePhysicalLength = 0,
                            xmlOffset = total_length_td xml_data point_data,
                            xmlLength = 0, pageSize = int (length xml_data)\<rparr>
                @ xml_data
                @ zeros (padding_needed 1024 (48 + int (length xml_data)))
                @ point_data)"
proof -
  let ?n = "total_length_td xml_data point_data"
  let ?xl = "int (length xml_data)"
  have p: "0 \<le> padding_needed 1024 (48 + ?xl)"
    by (rule padding_needed_nonneg) simp
  have n: "0 \<le> ?n" "?xl < 2 ^ 64"
    using p assms by (simp_all add: total_length_td_def binary_offset_td_eq)
  have upd: "update_header_td create_e57_header_td ?n ?xl =
               Inr (serialize \<lparr>filePhysicalLength = 0, xmlOffset = ?n, xmlLength = 0, pageSize = ?xl\<rparr>)"
    using n assms by (simp add: create_e57_header_td_serialize update_header_td_serialize)
  have len: "int (length create_e57_header_td) = 48"
    by (simp add: create_e57_header_td_serialize)
  show ?thesis
    unfolding create_e57_file_td_def Let_def upd len
    by (simp add: f_write_def)
qed

section \<open>Evaluating the reader\<close>

text \<open>
  The classes of the characters of the generators' texts (tab, line feed, carriage return
  and the printable ASCII characters), as rewrite rules: the reader is evaluated on whole
  documents, one character class at a time.
\<close>

lemma is_space_table:
  "is_space (CHR 0x09) = True" "is_space (CHR 0x0A) = True"
  "is_space (CHR 0x0D) = True" "is_space (CHR 0x20) = True"
  "is_space (CHR 0x21) = False" "is_space (CHR 0x22) = False"
  "is_space (CHR 0x23) = False" "is_space (CHR 0x24) = False"
  "is_space (CHR 0x25) = False" "is_space (CHR 0x26) = False"
  "is_space (CHR 0x27) = False" "is_space (CHR 0x28) = False"
  "is_space (CHR 0x29) = False" "is_space (CHR 0x2A) = False"
  "is_space (CHR 0x2B) = False" "is_space (CHR 0x2C) = False"
  "is_space (CHR 0x2D) = False" "is_space (CHR 0x2E) = False"
  "is_space (CHR 0x2F) = False" "is_space (CHR 0x30) = False"
  "is_space (CHR 0x31) = False" "is_space (CHR 0x32) = False"
  "is_space (CHR 0x33) = False" "is_space (CHR 0x34) = False"
  "is_space (CHR 0x35) = False" "is_space (CHR 0x36) = False"
  "is_space (CHR 0x37) = False" "is_space (CHR 0x38) = False"
  "is_space (CHR 0x39) = False" "is_space (CHR 0x3A) = False"
  "is_space (CHR 0x3B) = False" "is_space (CHR 0x3C) = False"
  "is_space (CHR 0x3D) = False" "is_space (CHR 0x3E) = False"
  "is_space (CHR 0x3F) = False" "is_space (CHR 0x40) = False"
  "is_space (CHR 0x41) = False" "is_space (CHR 0x42) = False"
  "is_space (CHR 0x43) = False" "is_space (CHR 0x44) = False"
  "is_space (CHR 0x45) = False" "is_space (CHR 0x46) = False"
  "is_space (CHR 0x47) = False" "is_space (CHR 0x48) = False"
  "is_space (CHR 0x49) = False" "is_space (CHR 0x4A) = False"
  "is_space (CHR 0x4B) = False" "is_space (CHR 0x4C) = False"
  "is_space (CHR 0x4D) = False" "is_space (CHR 0x4E) = False"
  "is_space (CHR 0x4F) = False" "is_space (CHR 0x50) = False"
  "is_space (CHR 0x51) = False" "is_space (CHR 0x52) = False"
  "is_space (CHR 0x53) = False" "is_space (CHR 0x54) = False"
  "is_space (CHR 0x55) = False" "is_space (CHR 0x56) = False"
  "is_space (CHR 0x57) = False" "is_space (CHR 0x58) = False"
  "is_space (CHR 0x59) = False" "is_space (CHR 0x5A) = False"
  "is_space (CHR 0x5B) = False" "is_space (CHR 0x5C) = False"
  "is_space (CHR 0x5D) = False" "is_space (CHR 0x5E) = False"
  "is_space (CHR 0x5F) = False" "is_space (CHR 0x60) = False"
  "is_space (CHR 0x61) = False" "is_space (CHR 0x62) = False"
  "is_space (CHR 0x63) = False" "is_space (CHR 0x64) = False"
  "is_space (CHR 0x65) = False" "is_space (CHR 0x66) = False"
  "is_space (CHR 0x67) = False" "is_space (CHR 0x68) = False"
  "is_space (CHR 0x69) = False" "is_space (CHR 0x6A) = False"
  "is_space (CHR 0x6B) = False" "is_space (CHR 0x6C) = False"
  "is_space (CHR 0x6D) = False" "is_space (CHR 0x6E) = False"
  "is_space (CHR 0x6F) = False" "is_space (CHR 0x70) = False"
  "is_space (CHR 0x71) = False" "is_space (CHR 0x72) = False"
  "is_space (CHR 0x73) = False" "is_space (CHR 0x74) = False"
  "is_space (CHR 0x75) = False" "is_space (CHR 0x76) = False"
  "is_space (CHR 0x77) = False" "is_space (CHR 0x78) = False"
  "is_space (CHR 0x79) = False" "is_space (CHR 0x7A) = False"
  "is_space (CHR 0x7B) = False" "is_space (CHR 0x7C) = False"
  "is_space (CHR 0x7D) = False" "is_space (CHR 0x7E) = False"
  by (simp_all add: is_space_def)

lemma is_name_start_table:
  "is_name_start (CHR 0x09) = False" "is_name_start (CHR 0x0A) = False"
  "is_name_start (CHR 0x0D) = False" "is_name_start (CHR 0x20) = False"
  "is_name_start (CHR 0x21) = False" "is_name_start (CHR 0x22) = False"
  "is_name_start (CHR 0x23) = False" "is_name_start (CHR 0x24) = False"
  "is_name_start (CHR 0x25) = False" "is_name_start (CHR 0x26) = False"
  "is_name_start (CHR 0x27) = False" "is_name_start (CHR 0x28) = False"
  "is_name_start (CHR 0x29) = False" "is_name_start (CHR 0x2A) = False"
  "is_name_start (CHR 0x2B) = False" "is_name_start (CHR 0x2C) = False"
  "is_name_start (CHR 0x2D) = False" "is_name_start (CHR 0x2E) = False"
  "is_name_start (CHR 0x2F) = False" "is_name_start (CHR 0x30) = False"
  "is_name_start (CHR 0x31) = False" "is_name_start (CHR 0x32) = False"
  "is_name_start (CHR 0x33) = False" "is_name_start (CHR 0x34) = False"
  "is_name_start (CHR 0x35) = False" "is_name_start (CHR 0x36) = False"
  "is_name_start (CHR 0x37) = False" "is_name_start (CHR 0x38) = False"
  "is_name_start (CHR 0x39) = False" "is_name_start (CHR 0x3A) = True"
  "is_name_start (CHR 0x3B) = False" "is_name_start (CHR 0x3C) = False"
  "is_name_start (CHR 0x3D) = False" "is_name_start (CHR 0x3E) = False"
  "is_name_start (CHR 0x3F) = False" "is_name_start (CHR 0x40) = False"
  "is_name_start (CHR 0x41) = True" "is_name_start (CHR 0x42) = True"
  "is_name_start (CHR 0x43) = True" "is_name_start (CHR 0x44) = True"
  "is_name_start (CHR 0x45) = True" "is_name_start (CHR 0x46) = True"
  "is_name_start (CHR 0x47) = True" "is_name_start (CHR 0x48) = True"
  "is_name_start (CHR 0x49) = True" "is_name_start (CHR 0x4A) = True"
  "is_name_start (CHR 0x4B) = True" "is_name_start (CHR 0x4C) = True"
  "is_name_start (CHR 0x4D) = True" "is_name_start (CHR 0x4E) = True"
  "is_name_start (CHR 0x4F) = True" "is_name_start (CHR 0x50) = True"
  "is_name_start (CHR 0x51) = True" "is_name_start (CHR 0x52) = True"
  "is_name_start (CHR 0x53) = True" "is_name_start (CHR 0x54) = True"
  "is_name_start (CHR 0x55) = True" "is_name_start (CHR 0x56) = True"
  "is_name_start (CHR 0x57) = True" "is_name_start (CHR 0x58) = True"
  "is_name_start (CHR 0x59) = True" "is_name_start (CHR 0x5A) = True"
  "is_name_start (CHR 0x5B) = False" "is_name_start (CHR 0x5C) = False"
  "is_name_start (CHR 0x5D) = False" "is_name_start (CHR 0x5E) = False"
  "is_name_start (CHR 0x5F) = True" "is_name_start (CHR 0x60) = False"
  "is_name_start (CHR 0x61) = True" "is_name_start (CHR 0x62) = True"
  "is_name_start (CHR 0x63) = True" "is_name_start (CHR 0x64) = True"
  "is_name_start (CHR 0x65) = True" "is_name_start (CHR 0x66) = True"
  "is_name_start (CHR 0x67) = True" "is_name_start (CHR 0x68) = True"
  "is_name_start (CHR 0x69) = True" "is_name_start (CHR 0x6A) = True"
  "is_name_start (CHR 0x6B) = True" "is_name_start (CHR 0x6C) = True"
  "is_name_start (CHR 0x6D) = True" "is_name_start (CHR 0x6E) = True"
  "is_name_start (CHR 0x6F) = True" "is_name_start (CHR 0x70) = True"
  "is_name_start (CHR 0x71) = True" "is_name_start (CHR 0x72) = True"
  "is_name_start (CHR 0x73) = True" "is_name_start (CHR 0x74) = True"
  "is_name_start (CHR 0x75) = True" "is_name_start (CHR 0x76) = True"
  "is_name_start (CHR 0x77) = True" "is_name_start (CHR 0x78) = True"
  "is_name_start (CHR 0x79) = True" "is_name_start (CHR 0x7A) = True"
  "is_name_start (CHR 0x7B) = False" "is_name_start (CHR 0x7C) = False"
  "is_name_start (CHR 0x7D) = False" "is_name_start (CHR 0x7E) = False"
  by (simp_all add: is_name_start_def)

lemma is_name_char_table:
  "is_name_char (CHR 0x09) = False" "is_name_char (CHR 0x0A) = False"
  "is_name_char (CHR 0x0D) = False" "is_name_char (CHR 0x20) = False"
  "is_name_char (CHR 0x21) = False" "is_name_char (CHR 0x22) = False"
  "is_name_char (CHR 0x23) = False" "is_name_char (CHR 0x24) = False"
  "is_name_char (CHR 0x25) = False" "is_name_char (CHR 0x26) = False"
  "is_name_char (CHR 0x27) = False" "is_name_char (CHR 0x28) = False"
  "is_name_char (CHR 0x29) = False" "is_name_char (CHR 0x2A) = False"
  "is_name_char (CHR 0x2B) = False" "is_name_char (CHR 0x2C) = False"
  "is_name_char (CHR 0x2D) = True" "is_name_char (CHR 0x2E) = True"
  "is_name_char (CHR 0x2F) = False" "is_name_char (CHR 0x30) = True"
  "is_name_char (CHR 0x31) = True" "is_name_char (CHR 0x32) = True"
  "is_name_char (CHR 0x33) = True" "is_name_char (CHR 0x34) = True"
  "is_name_char (CHR 0x35) = True" "is_name_char (CHR 0x36) = True"
  "is_name_char (CHR 0x37) = True" "is_name_char (CHR 0x38) = True"
  "is_name_char (CHR 0x39) = True" "is_name_char (CHR 0x3A) = True"
  "is_name_char (CHR 0x3B) = False" "is_name_char (CHR 0x3C) = False"
  "is_name_char (CHR 0x3D) = False" "is_name_char (CHR 0x3E) = False"
  "is_name_char (CHR 0x3F) = False" "is_name_char (CHR 0x40) = False"
  "is_name_char (CHR 0x41) = True" "is_name_char (CHR 0x42) = True"
  "is_name_char (CHR 0x43) = True" "is_name_char (CHR 0x44) = True"
  "is_name_char (CHR 0x45) = True" "is_name_char (CHR 0x46) = True"
  "is_name_char (CHR 0x47) = True" "is_name_char (CHR 0x48) = True"
  "is_name_char (CHR 0x49) = True" "is_name_char (CHR 0x4A) = True"
  "is_name_char (CHR 0x4B) = True" "is_name_char (CHR 0x4C) = True"
  "is_name_char (CHR 0x4D) = True" "is_name_char (CHR 0x4E) = True"
  "is_name_char (CHR 0x4F) = True" "is_name_char (CHR 0x50) = True"
  "is_name_char (CHR 0x51) = True" "is_name_char (CHR 0x52) = True"
  "is_name_char (CHR 0x53) = True" "is_name_char (CHR 0x54) = True"
  "is_name_char (CHR 0x55) = True" "is_name_char (CHR 0x56) = True"
  "is_name_char (CHR 0x57) = True" "is_name_char (CHR 0x58) = True"
  "is_name_char (CHR 0x59) = True" "is_name_char (CHR 0x5A) = True"
  "is_name_char (CHR 0x5B) = False" "is_name_char (CHR 0x5C) = False"
  "is_name_char (CHR 0x5D) = False" "is_name_char (CHR 0x5E) = False"
  "is_name_char (CHR 0x5F) = True" "is_name_char (CHR 0x60) = False"
  "is_name_char (CHR 0x61) = True" "is_name_char (CHR 0x62) = True"
  "is_name_char (CHR 0x63) = True" "is_name_char (CHR 0x64) = True"
  "is_name_char (CHR 0x65) = True" "is_name_char (CHR 0x66) = True"
  "is_name_char (CHR 0x67) = True" "is_name_char (CHR 0x68) = True"
  "is_name_char (CHR 0x69) = True" "is_name_char (CHR 0x6A) = True"
  "is_name_char (CHR 0x6B) = True" "is_name_char (CHR 0x6C) = True"
  "is_name_char (CHR 0x6D) = True" "is_name_char (CHR 0x6E) = True"
  "is_name_char (CHR 0x6F) = True" "is_name_char (CHR 0x70) = True"
  "is_name_char (CHR 0x71) = True" "is_name_char (CHR 0x72) = True"
  "is_name_char (CHR 0x73) = True" "is_name_char (CHR 0x74) = True"
  "is_name_char (CHR 0x75) = True" "is_name_char (CHR 0x76) = True"
  "is_name_char (CHR 0x77) = True" "is_name_char (CHR 0x78) = True"
  "is_name_char (CHR 0x79) = True" "is_name_char (CHR 0x7A) = True"
  "is_name_char (CHR 0x7B) = False" "is_name_char (CHR 0x7C) = False"
  "is_name_char (CHR 0x7D) = False" "is_name_char (CHR 0x7E) = False"
  by (simp_all add: is_name_char_def is_name_start_def)

lemmas char_tables = is_space_table is_name_start_table is_name_char_table

lemmas reader_defs =
  cut_def token_of_def markup_token_def read_tag_def attr_key_def is_decl_def
  startswith_def endswith_def reverse_def drop_last_def rstrip_def is_name_def
  parse_xml_def root_of_def

lemma str_int_values:
  "str_int 848 = ''848''" "str_int 1248 = ''1248''" "str_int 1648 = ''1648''"
  "str_int 1672 = ''1672''" "str_int 2040 = ''2040''" "str_int 2048 = ''2048''"
  by code_simp+

section \<open>The lengths of the generated documents\<close>

lemma length_encode_utf8: "ascii s \<Longrightarrow> length (encode_utf8 s) = length s"
  by (induction s) (simp_all add: ascii_def encode_utf8_def utf8_char_def)

lemma ascii_append [simp]: "ascii (a @ b) = (ascii a \<and> ascii b)"
  by (simp add: ascii_def)

lemma ascii_Cons: "ascii (c # s) = (\<not> digit7 c \<and> ascii s)"
  by (simp add: ascii_def)

lemma ascii_Nil [simp]: "ascii []"
  by (simp add: ascii_def)

lemma compressed_vector_xml_ascii:
  "ascii compressed_vector_xml_content" "length compressed_vector_xml_content = 1991"
  by (simp_all add: compressed_vector_xml_content_def str_int_values ascii_def)

lemma malformed_xml_ascii:
  "ascii malformed_xml_content" "length malformed_xml_content = 817"
  by (simp_all add: malformed_xml_content_def str_int_values ascii_def)

lemma compressed_vector_xml_td_ascii:
  "ascii compressed_vector_xml_content_td" "length compressed_vector_xml_content_td = 1755"
  by (simp_all add: compressed_vector_xml_content_td_def ascii_def)

lemma bitpack_xml_ascii:
  "ascii (bitpack_xml_content 2048)" "length (bitpack_xml_content 2048) = 1623"
  "ascii (bitpack_xml_content 1648)" "length (bitpack_xml_content 1648) = 1623"
  by (simp_all add: bitpack_xml_content_def str_int_values ascii_def)

lemma length_default_xml: "length create_compressed_vector_xml = 1991"
  by (simp add: create_compressed_vector_xml_def length_encode_utf8 compressed_vector_xml_ascii)

lemma length_malformed_xml: "length create_malformed_xml = 817"
  by (simp add: create_malformed_xml_def length_encode_utf8 malformed_xml_ascii)

lemma length_default_xml_td: "length create_compressed_vector_xml_td = 1755"
  by (simp add: create_compressed_vector_xml_td_def length_encode_utf8
        compressed_vector_xml_td_ascii)

lemma length_point_data: "length create_point_data = 36"
  by (simp add: create_point_data_def)

lemma default_fixture_lengths:
  "binary_offset_of create_compressed_vector_xml = 2040"
  "binary_offset_td create_compressed_vector_xml = 2048"
  "file_length_of create_compressed_vector_xml create_point_data = 2076"
  "total_length_td create_compressed_vector_xml create_point_data = 2084"
  by (simp_all add: file_length_of_def total_length_td_def binary_offset_of_roundUp
        binary_offset_td_roundUp roundUp_def length_default_xml length_point_data)

lemma td_fixture_lengths:
  "binary_offset_td create_compressed_vector_xml_td = 2048"
  "total_length_td create_compressed_vector_xml_td create_point_data = 2084"
  by (simp_all add: total_length_td_def binary_offset_td_roundUp roundUp_def
        length_default_xml_td length_point_data)

section \<open>\<open>replace\<close> keeps the length when it swaps texts of one length\<close>

lemma length_replace:
  "length old = length new \<Longrightarrow> length (replace s old new) = length s"
proof (induction s old new rule: replace.induct)
  case (1 s old new)
  show ?case
  proof (cases "old = []")
    case True
    with 1(3) have "new = []" by simp
    moreover have "length (concat (map (\<lambda>c. [c]) s)) = length s"
      by (induction s) simp_all
    ultimately show ?thesis using True by (simp add: replace.simps)
  next
    case False
    note old = this
    show ?thesis
    proof (cases "s = []")
      case True
      then show ?thesis using old by (simp add: replace.simps)
    next
      case False
      note s = this
      show ?thesis
      proof (cases "startswith s old")
        case True
        then have "take (length old) s = old"
          by (simp add: startswith_def)
        then have "length (take (length old) s) = length old"
          by simp
        then have "length old \<le> length s"
          by simp
        moreover have "replace s old new = new @ replace (drop (length old) s) old new"
          using old s True by (simp add: replace.simps)
        moreover have "length (replace (drop (length old) s) old new) = length (drop (length old) s)"
          using 1(1) [OF old s True] 1(3) by simp
        ultimately show ?thesis using 1(3) by simp
      next
        case False
        have "replace s old new = hd s # replace (tl s) old new"
          using old s False by (simp add: replace.simps)
        moreover have "length (replace (tl s) old new) = length (tl s)"
          using 1(2) [OF old s False] 1(3) by simp
        ultimately show ?thesis using s by simp
      qed
    qed
  qed
qed

lemma ascii_replace:
  "ascii s \<Longrightarrow> ascii new \<Longrightarrow> ascii (replace s old new)"
proof (induction s old new rule: replace.induct)
  case (1 s old new)
  show ?case
  proof (cases "old = []")
    case True
    have "ascii (concat (map (\<lambda>c. c # new) s))"
      using 1(3,4) by (induction s) (simp_all add: ascii_Cons)
    then show ?thesis using True 1(4) by (simp add: replace.simps)
  next
    case False
    note old = this
    show ?thesis
    proof (cases "s = []")
      case True
      then show ?thesis using old by (simp add: replace.simps)
    next
      case False
      note s = this
      show ?thesis
      proof (cases "startswith s old")
        case True
        have "ascii (drop (length old) s)"
          using 1(3) by (metis append_take_drop_id ascii_append)
        then have "ascii (replace (drop (length old) s) old new)"
          using 1(1) [OF old s True] 1(4) by simp
        moreover have "replace s old new = new @ replace (drop (length old) s) old new"
          using old s True by (simp add: replace.simps)
        ultimately show ?thesis using 1(4) by simp
      next
        case False
        obtain c cs where cs: "s = c # cs" using s by (cases s) auto
        have "ascii cs" "\<not> digit7 c" using 1(3) cs by (simp_all add: ascii_Cons)
        then have "ascii (replace (tl s) old new)"
          using 1(2) [OF old s False] 1(4) cs by simp
        moreover have "replace s old new = hd s # replace (tl s) old new"
          using old s False by (simp add: replace.simps)
        ultimately show ?thesis using cs \<open>\<not> digit7 c\<close> by (simp add: ascii_Cons)
      qed
    qed
  qed
qed

section \<open>The layout computation\<close>

text \<open>
  Claim C6. For every XML length that is not negative and every alignment unit above zero,
  the conditional add of the default generator, the modular padding of the page-aligned
  generator and the ceiling division of the bit-pack generator all give
  \<open>(48 + xml_length) + ((unit - ((48 + xml_length) mod unit)) mod unit)\<close>; the result is a
  multiple of the unit, and it is \<open>48 + xml_length\<close> exactly when that sum is a multiple
  of the unit already. The three generators compute their binary offset with these
  functions, from a header size of 48: the first with the unit 8, the second with 1024,
  the third with its \<open>page_size\<close>.
\<close>

theorem layout_alignment:
  assumes "0 \<le> xml_length" and "0 < unit"
  shows "align_cond unit (48 + xml_length)
           = (48 + xml_length) + ((unit - ((48 + xml_length) mod unit)) mod unit)
       \<and> align_modpad unit (48 + xml_length)
           = (48 + xml_length) + ((unit - ((48 + xml_length) mod unit)) mod unit)
       \<and> align_ceil unit (48 + xml_length)
           = (48 + xml_length) + ((unit - ((48 + xml_length) mod unit)) mod unit)
       \<and> align_cond unit (48 + xml_length) mod unit = 0
       \<and> ((align_cond unit (48 + xml_length) = 48 + xml_length)
            = ((48 + xml_length) mod unit = 0))
       \<and> snd create_e57_header = 48
       \<and> binary_offset_of xml_content
           = align_cond 8 (snd create_e57_header + int (length xml_content))
       \<and> int (length create_e57_header_td) = 48
       \<and> binary_offset_td xml_data
           = align_modpad 1024 (int (length create_e57_header_td) + int (length xml_data))
       \<and> bitpack_binary_offset unit
           = align_ceil unit
               (48 + int (length (encode_utf8 (bitpack_xml_content (estimated_binary_offset unit)))))"
proof -
  let ?v = "48 + xml_length"
  have c: "align_cond unit ?v = roundUp ?v unit"
    using assms(2) by (rule align_cond_roundUp)
  have m: "align_modpad unit ?v = roundUp ?v unit"
    by (rule align_modpad_roundUp)
  have d: "align_ceil unit ?v = roundUp ?v unit"
    using assms(2) by (rule align_ceil_roundUp)
  have z: "roundUp ?v unit mod unit = 0"
    using assms(2) by (rule roundUp_mod)
  have i: "(roundUp ?v unit = ?v) = (?v mod unit = 0)"
    using assms(2) by (rule roundUp_id_iff)
  have r: "roundUp ?v unit = ?v + ((unit - (?v mod unit)) mod unit)"
    by (simp add: roundUp_def)
  have h: "snd create_e57_header = 48"
    by (simp add: create_e57_header_def)
  have b: "binary_offset_of xml_content
             = align_cond 8 (snd create_e57_header + int (length xml_content))"
    by (simp add: binary_offset_of_def create_e57_header_def)
  have htd: "int (length create_e57_header_td) = 48"
    by (simp add: create_e57_header_td_serialize)
  have btd: "binary_offset_td xml_data
             = align_modpad 1024 (int (length create_e57_header_td) + int (length xml_data))"
    by (simp add: binary_offset_td_def)
  have bp: "bitpack_binary_offset unit
             = align_ceil unit
                 (48 + int (length (encode_utf8 (bitpack_xml_content (estimated_binary_offset unit)))))"
    by (simp add: bitpack_binary_offset_def)
  from c m d z i h b htd btd bp show ?thesis
    unfolding r by (intro conjI) simp_all
qed

theorem layout_alignment_witness:
  "(0::int) \<le> 1600 \<and> (0::int) < 1024
   \<and> align_cond 1024 (48 + 1600) = 2048
   \<and> align_modpad 1024 (48 + 1600) = 2048
   \<and> align_ceil 1024 (48 + 1600) = 2048
   \<and> binary_offset_of [] = align_cond 8 48"
  using layout_alignment [of 1600 1024 "[]" "[]"] by simp

section \<open>The container writer\<close>

text \<open>
  Claim C7. When the total length fits the header's eight bytes, the writer of the default
  generator and the writer of the page-aligned generator each return a file that is, in
  this order, a header of 48 bytes, the XML bytes as given, zero bytes up to the binary
  offset, and the payload bytes. The number of bytes emitted is the total length the
  layout computation gave, which is the binary offset plus the payload length.
\<close>

theorem writer_emits_layout:
  assumes "file_length_of xml_content point_data < 2 ^ 64"
      and "total_length_td xml_content point_data < 2 ^ 64"
  shows "(\<exists>header padding.
            create_e57_file xml_content point_data
              = Inr (header @ xml_content @ padding @ point_data)
          \<and> length header = 48
          \<and> padding = replicate (length padding) 0
          \<and> int (length (header @ xml_content @ padding)) = binary_offset_of xml_content
          \<and> int (length (header @ xml_content @ padding @ point_data))
              = file_length_of xml_content point_data
          \<and> file_length_of xml_content point_data
              = binary_offset_of xml_content + int (length point_data))
       \<and> (\<exists>header padding.
            create_e57_file_td xml_content point_data
              = Inr (header @ xml_content @ padding @ point_data)
          \<and> length header = 48
          \<and> padding = replicate (length padding) 0
          \<and> int (length (header @ xml_content @ padding)) = binary_offset_td xml_content
          \<and> int (length (header @ xml_content @ padding @ point_data))
              = total_length_td xml_content point_data
          \<and> total_length_td xml_content point_data
              = binary_offset_td xml_content + int (length point_data))"
proof
  let ?xl = "int (length xml_content)"
  let ?h = "serialize \<lparr>filePhysicalLength = file_length_of xml_content point_data,
                        xmlOffset = 48, xmlLength = ?xl, pageSize = 1024\<rparr>"
  let ?p = "zeros (binary_offset_of xml_content - (48 + ?xl))"
  have bo: "48 + ?xl \<le> binary_offset_of xml_content"
    by (rule binary_offset_of_bounds)
  have "create_e57_file xml_content point_data = Inr (?h @ xml_content @ ?p @ point_data)"
    using assms(1) by (rule create_e57_file_eq)
  moreover have "length ?h = 48" by simp
  moreover have "?p = replicate (length ?p) 0" by (simp add: zeros_def)
  moreover have l: "int (length (?h @ xml_content @ ?p)) = binary_offset_of xml_content"
    using bo by (simp add: zeros_def)
  moreover have "int (length (?h @ xml_content @ ?p @ point_data))
                   = file_length_of xml_content point_data"
    using l by (simp add: file_length_of_def)
  moreover have "file_length_of xml_content point_data
                   = binary_offset_of xml_content + int (length point_data)"
    by (simp add: file_length_of_def)
  ultimately show "\<exists>header padding.
            create_e57_file xml_content point_data
              = Inr (header @ xml_content @ padding @ point_data)
          \<and> length header = 48
          \<and> padding = replicate (length padding) 0
          \<and> int (length (header @ xml_content @ padding)) = binary_offset_of xml_content
          \<and> int (length (header @ xml_content @ padding @ point_data))
              = file_length_of xml_content point_data
          \<and> file_length_of xml_content point_data
              = binary_offset_of xml_content + int (length point_data)"
    by blast
next
  let ?xl = "int (length xml_content)"
  let ?h = "serialize \<lparr>filePhysicalLength = 0,
                        xmlOffset = total_length_td xml_content point_data,
                        xmlLength = 0, pageSize = ?xl\<rparr>"
  let ?p = "zeros (padding_needed 1024 (48 + ?xl))"
  have pn: "0 \<le> padding_needed 1024 (48 + ?xl)"
    by (rule padding_needed_nonneg) simp
  have "create_e57_file_td xml_content point_data = Inr (?h @ xml_content @ ?p @ point_data)"
    using assms(2) by (rule create_e57_file_td_eq)
  moreover have "length ?h = 48" by simp
  moreover have "?p = replicate (length ?p) 0" by (simp add: zeros_def)
  moreover have l: "int (length (?h @ xml_content @ ?p)) = binary_offset_td xml_content"
    using pn by (simp add: zeros_def binary_offset_td_eq)
  moreover have "int (length (?h @ xml_content @ ?p @ point_data))
                   = total_length_td xml_content point_data"
    using l by (simp add: total_length_td_def)
  moreover have "total_length_td xml_content point_data
                   = binary_offset_td xml_content + int (length point_data)"
    by (simp add: total_length_td_def)
  ultimately show "\<exists>header padding.
            create_e57_file_td xml_content point_data
              = Inr (header @ xml_content @ padding @ point_data)
          \<and> length header = 48
          \<and> padding = replicate (length padding) 0
          \<and> int (length (header @ xml_content @ padding)) = binary_offset_td xml_content
          \<and> int (length (header @ xml_content @ padding @ point_data))
              = total_length_td xml_content point_data
          \<and> total_length_td xml_content point_data
              = binary_offset_td xml_content + int (length point_data)"
    by blast
qed

theorem writer_emits_layout_witness:
  "file_length_of create_compressed_vector_xml create_point_data < 2 ^ 64
   \<and> total_length_td create_compressed_vector_xml create_point_data < 2 ^ 64
   \<and> (\<exists>header padding.
         create_e57_file create_compressed_vector_xml create_point_data
           = Inr (header @ create_compressed_vector_xml @ padding @ create_point_data)
       \<and> length header = 48
       \<and> padding = replicate (length padding) 0
       \<and> int (length (header @ create_compressed_vector_xml @ padding)) = 2040
       \<and> int (length (header @ create_compressed_vector_xml @ padding @ create_point_data)) = 2076)
   \<and> (\<exists>header padding.
         create_e57_file_td create_compressed_vector_xml create_point_data
           = Inr (header @ create_compressed_vector_xml @ padding @ create_point_data)
       \<and> length header = 48
       \<and> padding = replicate (length padding) 0
       \<and> int (length (header @ create_compressed_vector_xml @ padding)) = 2048
       \<and> int (length (header @ create_compressed_vector_xml @ padding @ create_point_data)) = 2084)"
proof -
  have h1: "file_length_of create_compressed_vector_xml create_point_data < 2 ^ 64"
    by (simp add: default_fixture_lengths)
  have h2: "total_length_td create_compressed_vector_xml create_point_data < 2 ^ 64"
    by (simp add: default_fixture_lengths)
  show ?thesis
    using writer_emits_layout [OF h1 h2] h1 h2
    unfolding default_fixture_lengths by blast
qed

end
